theory Spec2Isabelle
  imports Complex_Main "HOL-Library.AList" "HOL-Library.Char_ord" "HOL-Library.List_Lexorder"
    "HOL-Library.Product_Lexorder"
begin

section \<open>Data model\<close>

text \<open>
  Embedding of \<^verbatim>\<open>src/icenet/plotting/utils.py\<close>.

  A timestamp is a whole number of days since 1970-01-01: every series of the package is
  daily, \<^verbatim>\<open>dt.timedelta(days=n)\<close> is the integer \<open>n\<close>, and adding a timedelta is integer
  addition. Cell values are floating point in the source and real numbers here; no
  statement below depends on their arithmetic.
\<close>

type_synonym datetime = int
type_synonym path = string

text \<open>
  The exceptions the functions can raise. \<open>RuntimeError\<close> is the one raised by
  \<^verbatim>\<open>filter_ds_by_obs\<close>; it carries the two dates its message is formatted from.
  The others come from the libraries the code calls.
\<close>

datatype error =
    RuntimeError datetime datetime
  | ValueError string
  | KeyError string
  | OSError string
  | LibraryError string

datatype level = DEBUG | INFO | WARNING | EXCEPTION

text \<open>The log messages of the module, each with the values its format string receives.\<close>

datatype message =
    ObsNotAvailable datetime datetime datetime datetime
  | CannotFindAllObs datetime datetime path
  | GotFiles "path list"
  | NotIn path "(path \<times> datetime) list"
  | Stripping path datetime
  | NotStripping path
  | DebiaserInputRanges real real real real real real
  | DebiaserOutputRange real real

datatype log_record = Log level message

text \<open>A numpy array: its shape and its cells in row-major order.\<close>

record ndarray =
  shape :: "nat list"
  cells :: "real list"

text \<open>
  A gridded time series as xarray holds it: the file it was opened from
  (\<^verbatim>\<open>encoding["source"]\<close>), the \<^verbatim>\<open>time\<close>, \<^verbatim>\<open>yc\<close> and \<^verbatim>\<open>xc\<close> coordinates, and the cells of its
  one data variable (\<^verbatim>\<open>siconc\<close> or \<^verbatim>\<open>ice_conc\<close>), whose first axis is time.
\<close>

record dataset =
  source :: path
  time :: "datetime list"
  yc :: "real list"
  xc :: "real list"
  da_values :: ndarray

text \<open>A forecast dataset is used through its \<^verbatim>\<open>leadtime\<close> coordinate (whole days) only.\<close>

record forecast_ds =
  leadtime :: "int list"

section \<open>The calendar\<close>

text \<open>
  Python's \<^verbatim>\<open>datetime\<close> works in the proleptic Gregorian calendar. \<open>days_from_civil\<close> is the
  day number of a year, month and day; \<open>civil_from_days\<close> is its inverse. They give
  \<^verbatim>\<open>strftime("%Y%m%d")\<close>, \<^verbatim>\<open>strptime(..., "%Y%m%d")\<close> and \<^verbatim>\<open>.dt.year\<close> below, and let the
  scenarios be written with calendar dates.
\<close>

definition days_from_civil :: "int \<Rightarrow> int \<Rightarrow> int \<Rightarrow> datetime" where
  "days_from_civil y m d =
     (let y' = (if m \<le> 2 then y - 1 else y);
          era = y' div 400;
          yoe = y' - era * 400;
          doy = (153 * (if 2 < m then m - 3 else m + 9) + 2) div 5 + d - 1;
          doe = yoe * 365 + yoe div 4 - yoe div 100 + doy
      in era * 146097 + doe - 719468)"

definition civil_from_days :: "datetime \<Rightarrow> int \<times> int \<times> int" where
  "civil_from_days z0 =
     (let z = z0 + 719468;
          era = z div 146097;
          doe = z - era * 146097;
          yoe = (doe - doe div 1460 + doe div 36524 - doe div 146096) div 365;
          y = yoe + era * 400;
          doy = doe - (365 * yoe + yoe div 4 - yoe div 100);
          mp = (5 * doy + 2) div 153;
          d = doy - (153 * mp + 2) div 5 + 1;
          m = (if mp < 10 then mp + 3 else mp - 9)
      in (if m \<le> 2 then y + 1 else y, m, d))"

section \<open>Array reductions\<close>

text \<open>
  \<^verbatim>\<open>.min()\<close> and \<^verbatim>\<open>.max()\<close> of an array: numpy refuses an array with no element
  (``zero-size array to reduction operation'').
\<close>

definition array_min :: "'a::linorder list \<Rightarrow> error + 'a" where
  "array_min xs =
     (if xs = [] then Inl (ValueError ''zero-size array to reduction operation minimum'')
      else Inr (Min (set xs)))"

definition array_max :: "'a::linorder list \<Rightarrow> error + 'a" where
  "array_max xs =
     (if xs = [] then Inl (ValueError ''zero-size array to reduction operation maximum'')
      else Inr (Max (set xs)))"

section \<open>The forecast/observation reconciler\<close>

text \<open>
  \<^verbatim>\<open>filter_ds_by_obs(ds, obs_da, forecast_date)\<close>. The forecast date is taken after
  \<^verbatim>\<open>pd.to_datetime\<close>. \<^verbatim>\<open>broadcast_forecast\<close> is imported from
  \<^verbatim>\<open>icenet.process.forecasts\<close>, which is not among the source files: it is a parameter, and
  the window the function resolves is the pair of dates it is called with. The function
  returns the log records it emitted and either the exception raised or the value of the
  final call. \<^verbatim>\<open>obs_da.time.to_series()[0]\<close> and \<^verbatim>\<open>[-1]\<close> are the first and the last
  timestep; they are only evaluated when there is at least one.
\<close>

definition filter_ds_by_obs ::
  "(datetime \<Rightarrow> datetime \<Rightarrow> 'a forecast_ds_scheme \<Rightarrow> error + 'r) \<Rightarrow>
   'a forecast_ds_scheme \<Rightarrow> 'b dataset_scheme \<Rightarrow> datetime \<Rightarrow>
   log_record list \<times> (error + 'r)" where
  "filter_ds_by_obs broadcast_forecast ds obs_da forecast_date =
     (case array_min (leadtime ds) of
        Inl e \<Rightarrow> ([], Inl e)
      | Inr lo \<Rightarrow>
     (case array_max (leadtime ds) of
        Inl e \<Rightarrow> ([], Inl e)
      | Inr hi \<Rightarrow>
        let start_date = forecast_date + lo;
            end_date = forecast_date + hi
        in
          if length (time obs_da) < length (leadtime ds) then
            if length (time obs_da) < 1 then
              ([], Inl (RuntimeError start_date end_date))
            else
              ([Log WARNING (ObsNotAvailable (hd (time obs_da)) (last (time obs_da))
                               start_date end_date)],
               broadcast_forecast (hd (time obs_da)) (last (time obs_da)) ds)
          else
            ([], broadcast_forecast start_date end_date ds)))"


text \<open>
  The nominal window of a forecast: the forecast date plus its minimum lead time through
  the forecast date plus its maximum lead time (these are the first two assignments of
  \<^verbatim>\<open>filter_ds_by_obs\<close>, for a forecast with at least one lead time).
\<close>

definition nominal_window :: "'a forecast_ds_scheme \<Rightarrow> datetime \<Rightarrow> datetime \<times> datetime" where
  "nominal_window ds forecast_date =
     (forecast_date + Min (set (leadtime ds)), forecast_date + Max (set (leadtime ds)))"


section \<open>Selection by time\<close>

text \<open>Rows \<open>i\<close> to \<open>i + k - 1\<close> along the first axis of an array.\<close>

definition nd_rows :: "nat \<Rightarrow> nat \<Rightarrow> ndarray \<Rightarrow> ndarray" where
  "nd_rows i k a =
     \<lparr>shape = (case shape a of [] \<Rightarrow> [] | n # ns \<Rightarrow> min k (n - i) # ns),
      cells = take (k * prod_list (tl (shape a))) (drop (i * prod_list (tl (shape a))) (cells a))\<rparr>"

text \<open>
  \<^verbatim>\<open>ds.sel(time=slice(lo, hi))\<close> on a time axis in increasing order (the series of the
  package are; pandas locates both ends by binary search): the timesteps before \<open>lo\<close> are
  skipped and the following ones are kept up to and including \<open>hi\<close>. \<open>None\<close> is an open
  end. On an axis that is not increasing pandas cuts at the position of the label or
  raises \<^verbatim>\<open>KeyError\<close>; the definition does not describe that case, and what is stated
  below about a clipped axis is stated for an increasing one.
\<close>

definition sel_time ::
  "datetime option \<Rightarrow> datetime option \<Rightarrow> 'a dataset_scheme \<Rightarrow> 'a dataset_scheme" where
  "sel_time lo hi ds =
     (let skipped = (case lo of None \<Rightarrow> 0
                     | Some l \<Rightarrow> length (takeWhile (\<lambda>t. t < l) (time ds)));
          kept = (case hi of None \<Rightarrow> drop skipped (time ds)
                  | Some h \<Rightarrow> takeWhile (\<lambda>t. t \<le> h) (drop skipped (time ds)))
      in ds\<lparr>time := kept, da_values := nd_rows skipped (length kept) (da_values ds)\<rparr>)"

section \<open>The historical forecast corpus\<close>

text \<open>\<^verbatim>\<open>list.index\<close>: the first position of an element, \<open>None\<close> for \<^verbatim>\<open>ValueError\<close>.\<close>

fun index_of :: "'a list \<Rightarrow> 'a \<Rightarrow> nat option" where
  "index_of [] x = None"
| "index_of (y # ys) x = (if y = x then Some 0 else map_option Suc (index_of ys x))"

text \<open>
  \<^verbatim>\<open>strip_overlapping_time(ds)\<close>, the \<^verbatim>\<open>preprocess\<close> callback of the corpus build. The
  closure variable \<^verbatim>\<open>seas_hist_files\<close> is a parameter: a dict from absolute path to
  issuance date, held as the list of its items in the dict's order (a dict has no key
  twice). \<^verbatim>\<open>os.path.abspath\<close> is a parameter too. The result is the log record emitted and
  what the callback returns: \<open>None\<close> for Python's \<^verbatim>\<open>None\<close>.
\<close>

definition strip_overlapping_time ::
  "(path \<Rightarrow> path) \<Rightarrow> (path \<times> datetime) list \<Rightarrow> 'a dataset_scheme \<Rightarrow>
   log_record list \<times> (error + 'a dataset_scheme option)" where
  "strip_overlapping_time abspath seas_hist_files ds =
     (let data_file = abspath (source ds) in
      case index_of (map fst seas_hist_files) data_file of
        None \<Rightarrow> ([Log EXCEPTION (NotIn data_file seas_hist_files)], Inr None)
      | Some idx \<Rightarrow>
          if idx < length seas_hist_files - 1 then
            (case map_of seas_hist_files (map fst seas_hist_files ! (idx + 1)) of
               None \<Rightarrow> ([], Inl (KeyError (map fst seas_hist_files ! (idx + 1))))
             | Some next_date \<Rightarrow>
                 let max_date = next_date - 1 in
                 ([Log DEBUG (Stripping data_file max_date)],
                  Inr (Some (sel_time None (Some max_date) ds))))
          else
            ([Log DEBUG (NotStripping data_file)], Inr (Some ds)))"

text \<open>
  The valid window of the \<open>i\<close>-th entry in the words of the specification: it starts at
  the entry's issuance date and ends the day before the next entry's issuance date; the
  last entry's window has no end.
\<close>

definition valid_window :: "(path \<times> datetime) list \<Rightarrow> nat \<Rightarrow> datetime \<times> datetime option" where
  "valid_window entries i =
     (snd (entries ! i),
      if i + 1 < length entries then Some (snd (entries ! (i + 1)) - 1) else None)"

section \<open>Files and libraries\<close>

text \<open>
  What the module calls outside itself: \<^verbatim>\<open>glob.glob\<close>, \<^verbatim>\<open>os.path.abspath\<close>,
  \<^verbatim>\<open>xr.open_dataset\<close> (with the selection of the file's data variable), the combination
  step of \<^verbatim>\<open>xr.open_mfdataset\<close> (applied to what the \<^verbatim>\<open>preprocess\<close> callback returned for
  each file, in order), and \<^verbatim>\<open>LinearScaling(...).apply\<close> of ibicus.
\<close>

record env =
  glob :: "string \<Rightarrow> path list"
  abspath :: "path \<Rightarrow> path"
  open_dataset :: "path \<Rightarrow> error + dataset"
  combine :: "dataset option list \<Rightarrow> error + dataset"
  debiaser_apply :: "ndarray \<Rightarrow> ndarray \<Rightarrow> ndarray \<Rightarrow> error + ndarray"

text \<open>Opening the files one after the other; the first failure is raised.\<close>

fun open_all :: "(path \<Rightarrow> error + dataset) \<Rightarrow> path list \<Rightarrow> error + dataset list" where
  "open_all opn [] = Inr []"
| "open_all opn (p # ps) =
     (case opn p of
        Inl e \<Rightarrow> Inl e
      | Inr ds \<Rightarrow> (case open_all opn ps of Inl e \<Rightarrow> Inl e | Inr dss \<Rightarrow> Inr (ds # dss)))"

text \<open>\<^verbatim>\<open>[preprocess(ds) for ds in datasets]\<close>, with the log records in order.\<close>

fun preprocess_all ::
  "(dataset \<Rightarrow> log_record list \<times> (error + dataset option)) \<Rightarrow> dataset list \<Rightarrow>
   log_record list \<times> (error + dataset option list)" where
  "preprocess_all f [] = ([], Inr [])"
| "preprocess_all f (ds # dss) =
     (case f ds of
        (l, Inl e) \<Rightarrow> (l, Inl e)
      | (l, Inr r) \<Rightarrow>
          (case preprocess_all f dss of
             (l', Inl e) \<Rightarrow> (l @ l', Inl e)
           | (l', Inr rs) \<Rightarrow> (l @ l', Inr (r # rs))))"

text \<open>
  \<^verbatim>\<open>xr.open_mfdataset(paths, preprocess=...)\<close>: xarray raises
  \<^verbatim>\<open>OSError("no files to open")\<close> for an empty list of paths; otherwise it opens every
  file, applies the callback to each and combines the results.
\<close>

definition open_mfdataset ::
  "env \<Rightarrow> path list \<Rightarrow> (dataset \<Rightarrow> log_record list \<times> (error + dataset option)) \<Rightarrow>
   log_record list \<times> (error + dataset)" where
  "open_mfdataset env paths preprocess =
     (if paths = [] then ([], Inl (OSError ''no files to open''))
      else
        case open_all (open_dataset env) paths of
          Inl e \<Rightarrow> ([], Inl e)
        | Inr datasets \<Rightarrow>
            (case preprocess_all preprocess datasets of
               (l, Inl e) \<Rightarrow> (l, Inl e)
             | (l, Inr results) \<Rightarrow> (l, combine env results)))"

text \<open>No \<^verbatim>\<open>preprocess\<close> argument: every dataset is kept as it is.\<close>

definition no_preprocess :: "dataset \<Rightarrow> log_record list \<times> (error + dataset option)" where
  "no_preprocess ds = ([], Inr (Some ds))"

section \<open>Names of files\<close>

text \<open>
  \<^verbatim>\<open>os.path.join\<close> of relative components that do not end in a separator, and
  \<^verbatim>\<open>os.path.basename\<close>.
\<close>

fun join_path :: "string list \<Rightarrow> path" where
  "join_path [] = []"
| "join_path [x] = x"
| "join_path (x # xs) = x @ ''/'' @ join_path xs"

definition basename :: "path \<Rightarrow> string" where
  "basename p = rev (takeWhile (\<lambda>c. c \<noteq> CHR ''/'') (rev p))"

text \<open>Decimal digits of a number, and a number from its decimal digits.\<close>

fun nat_to_str :: "nat \<Rightarrow> string" where
  "nat_to_str n =
     (if n < 10 then [char_of (48 + n)]
      else nat_to_str (n div 10) @ [char_of (48 + n mod 10)])"

declare nat_to_str.simps [simp del]

definition is_digit :: "char \<Rightarrow> bool" where
  "is_digit c = (CHR ''0'' \<le> c \<and> c \<le> CHR ''9'')"

definition digits_to_int :: "string \<Rightarrow> int" where
  "digits_to_int s = foldl (\<lambda>a c. 10 * a + (of_char c - 48)) 0 s"

definition zero_pad :: "nat \<Rightarrow> string \<Rightarrow> string" where
  "zero_pad n s = replicate (n - length s) CHR ''0'' @ s"

text \<open>\<^verbatim>\<open>date.strftime("%Y%m%d")\<close>.\<close>

definition strftime_Ymd :: "datetime \<Rightarrow> string" where
  "strftime_Ymd date =
     (case civil_from_days date of
        (y, m, d) \<Rightarrow>
          zero_pad 4 (nat_to_str (nat y)) @ zero_pad 2 (nat_to_str (nat m))
            @ zero_pad 2 (nat_to_str (nat d)))"

text \<open>
  \<^verbatim>\<open>dt.datetime.strptime(s, "%Y%m%d")\<close> on eight digits: \<^verbatim>\<open>ValueError\<close> unless they name a
  day of the calendar.
\<close>

definition days_in_month :: "int \<Rightarrow> int \<Rightarrow> int" where
  "days_in_month y m =
     (if m = 2 then (if y mod 4 = 0 \<and> (y mod 100 \<noteq> 0 \<or> y mod 400 = 0) then 29 else 28)
      else if m = 4 \<or> m = 6 \<or> m = 9 \<or> m = 11 then 30 else 31)"

definition strptime_Ymd :: "string \<Rightarrow> error + datetime" where
  "strptime_Ymd s =
     (let y = digits_to_int (take 4 s);
          m = digits_to_int (take 2 (drop 4 s));
          d = digits_to_int (drop 6 s)
      in if 1 \<le> y \<and> 1 \<le> m \<and> m \<le> 12 \<and> 1 \<le> d \<and> d \<le> days_in_month y m
         then Inr (days_from_civil y m d)
         else Inl (ValueError ''time data does not match format %Y%m%d''))"

text \<open>
  \<^verbatim>\<open>re.search(r'^\d{8}\.nc$', name)\<close> on an ASCII name: eight digits and \<^verbatim>\<open>.nc\<close>, and
  nothing after it but at most one newline.
\<close>

definition matches_date_nc :: "string \<Rightarrow> bool" where
  "matches_date_nc name =
     (length (take 8 name) = 8 \<and> list_all is_digit (take 8 name) \<and>
      (drop 8 name = ''.nc'' \<or> drop 8 name = ''.nc'' @ [CHR 0x0A]))"

section \<open>The observation range loader\<close>

text \<open>
  \<^verbatim>\<open>pd.date_range(start_date, end_date)\<close> is every day from the first to the last,
  \<^verbatim>\<open>.dt.year\<close> the calendar year of each, and \<^verbatim>\<open>.unique()\<close> keeps the first occurrence of
  each value, in order.
\<close>

definition year_of :: "datetime \<Rightarrow> int" where
  "year_of date = fst (civil_from_days date)"

definition unique :: "'a list \<Rightarrow> 'a list" where
  "unique xs = rev (remdups (rev xs))"

definition obs_years :: "datetime \<Rightarrow> datetime \<Rightarrow> int list" where
  "obs_years start_date end_date = unique (map year_of [start_date..end_date])"

text \<open>
  \<^verbatim>\<open>get_obs_da(hemisphere, start_date, end_date, obs_source)\<close>: the log records and either
  the exception raised or the series returned.
\<close>

definition get_obs_da ::
  "env \<Rightarrow> string \<Rightarrow> datetime \<Rightarrow> datetime \<Rightarrow> path \<Rightarrow> log_record list \<times> (error + dataset)" where
  "get_obs_da env hemisphere start_date end_date obs_source =
     (let years = obs_years start_date end_date;
          obs_dfs = concat (map (\<lambda>yr. glob env (join_path
                      [obs_source, hemisphere, ''siconca'', nat_to_str (nat yr) @ ''.nc'']))
                      years);
          warned = (if length obs_dfs < length years
                    then [Log WARNING (CannotFindAllObs start_date end_date obs_source)]
                    else []);
          logs = warned @ [Log INFO (GotFiles obs_dfs)]
      in case open_mfdataset env obs_dfs no_preprocess of
           (l, Inl e) \<Rightarrow> (logs @ l, Inl e)
         | (l, Inr obs_ds) \<Rightarrow>
             (logs @ l, Inr (sel_time (Some start_date) (Some end_date) obs_ds)))"

section \<open>The bias-corrected seasonal forecast\<close>

text \<open>
  Assignment to \<^verbatim>\<open>.values\<close>: xarray keeps the coordinates and refuses an array of another
  shape.
\<close>

definition set_values :: "'a dataset_scheme \<Rightarrow> ndarray \<Rightarrow> error + 'a dataset_scheme" where
  "set_values da arr =
     (if shape arr \<noteq> shape (da_values da)
      then Inl (ValueError ''replacement data must match the shape of the variable'')
      else Inr (da\<lparr>da_values := arr\<rparr>))"

text \<open>\<^verbatim>\<open>(float(da.min()), float(da.max()))\<close>.\<close>

definition value_range :: "'a dataset_scheme \<Rightarrow> error + real \<times> real" where
  "value_range da =
     (case array_min (cells (da_values da)) of
        Inl e \<Rightarrow> Inl e
      | Inr lo \<Rightarrow> (case array_max (cells (da_values da)) of
                     Inl e \<Rightarrow> Inl e
                   | Inr hi \<Rightarrow> Inr (lo, hi)))"

text \<open>
  The dict \<^verbatim>\<open>seas_hist_files\<close>: the files of the directory named by eight digits and
  \<^verbatim>\<open>.nc\<close>, the forecast's own file left out, each absolute path with the date its name
  parses to; then \<^verbatim>\<open>dict(sorted(....items()))\<close>, which orders the items as Python orders
  tuples of a string and a date.
\<close>

fun parse_all :: "(path \<Rightarrow> error + datetime) \<Rightarrow> path list \<Rightarrow> error + datetime list" where
  "parse_all f [] = Inr []"
| "parse_all f (p # ps) =
     (case f p of
        Inl e \<Rightarrow> Inl e
      | Inr d \<Rightarrow> (case parse_all f ps of Inl e \<Rightarrow> Inl e | Inr ds \<Rightarrow> Inr (d # ds)))"

definition seas_hist_files ::
  "env \<Rightarrow> path \<Rightarrow> string \<Rightarrow> path \<Rightarrow> error + (path \<times> datetime) list" where
  "seas_hist_files env source_path hemisphere seas_file =
     (let els = filter (\<lambda>el. matches_date_nc (basename el) \<and> el \<noteq> seas_file)
                  (glob env (join_path [source_path, hemisphere, ''siconca'', ''*.nc'']))
      in case parse_all (\<lambda>el. strptime_Ymd (take 8 (basename el))) els of
           Inl e \<Rightarrow> Inl e
         | Inr dates \<Rightarrow>
             Inr (sort (fold (\<lambda>(k, v) d. AList.update k v d)
                          (zip (map (abspath env) els) dates) [])))"

text \<open>
  \<^verbatim>\<open>get_seas_forecast_da(hemisphere, date, bias_correct, source_path)\<close>. The observations
  are loaded from the default \<^verbatim>\<open>obs_source\<close> of \<^verbatim>\<open>get_obs_da\<close>, \<^verbatim>\<open>./data/osisaf\<close>.
\<close>

definition get_seas_forecast_da ::
  "env \<Rightarrow> string \<Rightarrow> datetime \<Rightarrow> bool \<Rightarrow> path \<Rightarrow> log_record list \<times> (error + dataset)" where
  "get_seas_forecast_da env hemisphere date bias_correct source_path =
     (let seas_file = join_path [source_path, hemisphere, ''siconca'',
                                 strftime_Ymd date @ ''.nc'']
      in case open_dataset env seas_file of
           Inl e \<Rightarrow> ([], Inl e)
         | Inr seas_da \<Rightarrow>
      if \<not> bias_correct then ([], Inr seas_da)
      else
        let start_date = date - 10 * 365;
            end_date = date + 10 * 365
        in case get_obs_da env hemisphere start_date end_date ''./data/osisaf'' of
             (l1, Inl e) \<Rightarrow> (l1, Inl e)
           | (l1, Inr obs_da) \<Rightarrow>
        (case seas_hist_files env source_path hemisphere seas_file of
             Inl e \<Rightarrow> (l1, Inl e)
           | Inr hist_files \<Rightarrow>
        (case open_mfdataset env (map fst hist_files)
                (strip_overlapping_time (abspath env) hist_files) of
             (l2, Inl e) \<Rightarrow> (l1 @ l2, Inl e)
           | (l2, Inr hist_da) \<Rightarrow>
        (case value_range obs_da of Inl e \<Rightarrow> (l1 @ l2, Inl e) | Inr (obs_lo, obs_hi) \<Rightarrow>
        (case value_range hist_da of Inl e \<Rightarrow> (l1 @ l2, Inl e) | Inr (hist_lo, hist_hi) \<Rightarrow>
        (case value_range seas_da of Inl e \<Rightarrow> (l1 @ l2, Inl e) | Inr (fut_lo, fut_hi) \<Rightarrow>
          let l3 = [Log INFO (DebiaserInputRanges obs_lo obs_hi hist_lo hist_hi fut_lo fut_hi)]
          in case debiaser_apply env (da_values obs_da) (da_values hist_da)
                    (da_values seas_da) of
               Inl e \<Rightarrow> (l1 @ l2 @ l3, Inl e)
             | Inr seas_array \<Rightarrow>
          (case set_values seas_da seas_array of
               Inl e \<Rightarrow> (l1 @ l2 @ l3, Inl e)
             | Inr corrected \<Rightarrow>
          (case value_range corrected of
               Inl e \<Rightarrow> (l1 @ l2 @ l3, Inl e)
             | Inr (lo, hi) \<Rightarrow>
                 (l1 @ l2 @ l3 @ [Log INFO (DebiaserOutputRange lo hi)],
                  Inr corrected)))))))))"

section \<open>An example\<close>

text \<open>
  A file system for the examples: the forecasts issued on 2022-03-01, 2022-04-01 and
  2022-05-01 under \<^verbatim>\<open>/data/mars.seas/north/siconca\<close>, every yearly observation file
  present, two timesteps on a one-cell grid in every file; a combination step that
  returns the first dataset, and a debiaser that halves every cell of the forecast.
\<close>

definition example_env :: env where
  "example_env =
     \<lparr>glob = (\<lambda>pattern.
         if pattern = ''/data/mars.seas/north/siconca/*.nc''
         then [''/data/mars.seas/north/siconca/20220301.nc'',
               ''/data/mars.seas/north/siconca/20220401.nc'',
               ''/data/mars.seas/north/siconca/20220501.nc'']
         else [pattern]),
      abspath = (\<lambda>p. p),
      open_dataset = (\<lambda>p.
         Inr \<lparr>source = p,
              time = (if p = ''/data/mars.seas/north/siconca/20220301.nc''
                      then [days_from_civil 2022 3 1, days_from_civil 2022 3 2]
                      else if p = ''/data/mars.seas/north/siconca/20220501.nc''
                      then [days_from_civil 2022 5 1, days_from_civil 2022 5 2]
                      else [days_from_civil 2022 4 1, days_from_civil 2022 4 2]),
              yc = [0], xc = [0],
              da_values = \<lparr>shape = [2, 1, 1], cells = [1 / 2, 1 / 4]\<rparr>\<rparr>),
      combine = (\<lambda>results.
         case results of
           Some ds # rest \<Rightarrow> Inr (ds\<lparr>source := []\<rparr>)
         | _ \<Rightarrow> Inl (LibraryError ''cannot combine'')),
      debiaser_apply = (\<lambda>obs hist fut. Inr (fut\<lparr>cells := map (\<lambda>x. x / 2) (cells fut)\<rparr>))\<rparr>"

section \<open>Properties of the reconciler\<close>

lemma array_min_Inr: "xs \<noteq> [] \<Longrightarrow> array_min xs = Inr (Min (set xs))"
  by (simp add: array_min_def)

lemma array_max_Inr: "xs \<noteq> [] \<Longrightarrow> array_max xs = Inr (Max (set xs))"
  by (simp add: array_max_def)

lemma Min_upto: "i \<le> j \<Longrightarrow> Min {i..j::int} = i"
  by (rule Min_eqI) auto

lemma Max_upto: "i \<le> j \<Longrightarrow> Max {i..j::int} = j"
  by (rule Max_eqI) auto

lemma hd_upto: "i \<le> j \<Longrightarrow> hd [i..j] = i"
  by (simp add: upto_rec1)

lemma last_upto: "i \<le> j \<Longrightarrow> last [i..j] = j"
  by (simp add: upto_rec2)



text \<open>
  Claim C2. When the observation series has no timestep, \<^verbatim>\<open>filter_ds_by_obs\<close> raises the
  ``No observational data available'' \<open>RuntimeError\<close>, and the two dates in it are the
  nominal bounds: the forecast date plus the minimum lead time and the forecast date plus
  the maximum lead time. Nothing is logged and \<^verbatim>\<open>broadcast_forecast\<close> is not called. The
  forecast has at least one lead time, as the lead-time axis of the data model does
  (without one there is no nominal window, and \<^verbatim>\<open>ds.leadtime.min()\<close> fails first).
\<close>

theorem filter_ds_by_obs_no_observations:
  assumes "time obs_da = []" and "leadtime ds \<noteq> []"
  shows "filter_ds_by_obs broadcast_forecast ds obs_da forecast_date =
           ([], Inl (RuntimeError (forecast_date + Min (set (leadtime ds)))
                                  (forecast_date + Max (set (leadtime ds)))))"
  using assms by (simp add: filter_ds_by_obs_def array_min_Inr array_max_Inr)

text \<open>
  Scenario C: lead times 0 to 14 from 2022-04-01 and an observation series with no
  timestep; the error carries 2022-04-01 and 2022-04-15.
\<close>

theorem filter_ds_by_obs_no_observations_witness:
  "filter_ds_by_obs (\<lambda>s e d. Inr (s, e, d)) \<lparr>leadtime = [0..14]\<rparr>
      \<lparr>source = ''osisaf'', time = [], yc = [], xc = [],
        da_values = \<lparr>shape = [0, 0, 0], cells = []\<rparr>\<rparr>
      (days_from_civil 2022 4 1) =
    ([], Inl (RuntimeError (days_from_civil 2022 4 1) (days_from_civil 2022 4 15)))"
  using filter_ds_by_obs_no_observations [of
      "\<lparr>source = ''osisaf'', time = [], yc = [], xc = [],
         da_values = \<lparr>shape = [0, 0, 0], cells = []\<rparr>\<rparr>"
      "\<lparr>leadtime = [0..14]\<rparr>" "\<lambda>s e d. Inr (s, e, d)" "days_from_civil 2022 4 1"]
  by (simp add: days_from_civil_def Min_upto Max_upto)

text \<open>
  Claim C3. When the observation series has at least one timestep and fewer timesteps than
  the forecast has lead times, \<^verbatim>\<open>filter_ds_by_obs\<close> logs exactly one warning, which names
  the first and last observation dates and the nominal bounds, and calls
  \<^verbatim>\<open>broadcast_forecast\<close> with exactly the first and the last observation date.
\<close>

theorem filter_ds_by_obs_partial_coverage:
  assumes "1 \<le> length (time obs_da)" and "length (time obs_da) < length (leadtime ds)"
  shows "filter_ds_by_obs broadcast_forecast ds obs_da forecast_date =
           ([Log WARNING (ObsNotAvailable (hd (time obs_da)) (last (time obs_da))
                            (forecast_date + Min (set (leadtime ds)))
                            (forecast_date + Max (set (leadtime ds))))],
            broadcast_forecast (hd (time obs_da)) (last (time obs_da)) ds)"
proof -
  from assms have "leadtime ds \<noteq> []" and "time obs_da \<noteq> []" by auto
  with assms show ?thesis
    by (simp add: filter_ds_by_obs_def array_min_Inr array_max_Inr Let_def)
qed

text \<open>
  Scenario B: lead times 0 to 14 from 2022-04-01, observations from 2022-04-01 to
  2022-04-10; the window becomes those ten days and one warning is logged.
\<close>

theorem filter_ds_by_obs_partial_coverage_witness:
  "filter_ds_by_obs (\<lambda>s e d. Inr (s, e, d)) \<lparr>leadtime = [0..14]\<rparr>
      \<lparr>source = ''osisaf'', time = [days_from_civil 2022 4 1..days_from_civil 2022 4 10],
        yc = [], xc = [], da_values = \<lparr>shape = [10, 0, 0], cells = []\<rparr>\<rparr>
      (days_from_civil 2022 4 1) =
    ([Log WARNING (ObsNotAvailable (days_from_civil 2022 4 1) (days_from_civil 2022 4 10)
                     (days_from_civil 2022 4 1) (days_from_civil 2022 4 15))],
     Inr (days_from_civil 2022 4 1, days_from_civil 2022 4 10, \<lparr>leadtime = [0..14]\<rparr>))"
proof -
  have obs: "hd [19083..19092::int] = 19083" "last [19083..19092::int] = 19092"
    "length [19083..19092::int] = 10"
    by (simp_all add: hd_upto last_upto)
  show ?thesis
    using filter_ds_by_obs_partial_coverage [of
      "\<lparr>source = ''osisaf'', time = [19083..19092], yc = [], xc = [],
         da_values = \<lparr>shape = [10, 0, 0], cells = []\<rparr>\<rparr>"
      "\<lparr>leadtime = [0..14]\<rparr>" "\<lambda>s e d. Inr (s, e, d)" 19083]
    by (simp add: days_from_civil_def obs Min_upto Max_upto)
qed

text \<open>
  Claim C4. When the observation series has at least as many timesteps as the forecast has
  lead times, \<^verbatim>\<open>filter_ds_by_obs\<close> logs nothing and calls \<^verbatim>\<open>broadcast_forecast\<close> with the
  nominal bounds unchanged. The forecast has at least one lead time (see C2).
\<close>

theorem filter_ds_by_obs_full_coverage:
  assumes "leadtime ds \<noteq> []" and "length (leadtime ds) \<le> length (time obs_da)"
  shows "filter_ds_by_obs broadcast_forecast ds obs_da forecast_date =
           ([], broadcast_forecast (forecast_date + Min (set (leadtime ds)))
                                   (forecast_date + Max (set (leadtime ds))) ds)"
  using assms by (simp add: filter_ds_by_obs_def array_min_Inr array_max_Inr)

text \<open>
  Scenario A: lead times 0 to 14 from 2022-04-01, observations on all fifteen days; the
  window is 2022-04-01 to 2022-04-15 and nothing is logged.
\<close>

theorem filter_ds_by_obs_full_coverage_witness:
  "filter_ds_by_obs (\<lambda>s e d. Inr (s, e, d)) \<lparr>leadtime = [0..14]\<rparr>
      \<lparr>source = ''osisaf'', time = [days_from_civil 2022 4 1..days_from_civil 2022 4 15],
        yc = [], xc = [], da_values = \<lparr>shape = [15, 0, 0], cells = []\<rparr>\<rparr>
      (days_from_civil 2022 4 1) =
    ([], Inr (days_from_civil 2022 4 1, days_from_civil 2022 4 15, \<lparr>leadtime = [0..14]\<rparr>))"
proof -
  have obs: "length [19083..19097::int] = 15" by simp
  show ?thesis
    using filter_ds_by_obs_full_coverage [of "\<lparr>leadtime = [0..14]\<rparr>"
      "\<lparr>source = ''osisaf'', time = [19083..19097], yc = [], xc = [],
         da_values = \<lparr>shape = [15, 0, 0], cells = []\<rparr>\<rparr>"
      "\<lambda>s e d. Inr (s, e, d)" 19083]
    by (simp add: days_from_civil_def obs Min_upto Max_upto)
qed




text \<open>
  Claim C10. For a forecast with at least one lead time, \<^verbatim>\<open>filter_ds_by_obs\<close> chooses
  its branch by comparing the number of observation timesteps with the number of lead
  times, and by nothing else: with at least as many timesteps as lead times it logs
  nothing and broadcasts on the nominal window; with no timestep it raises the error with
  the nominal bounds; otherwise it logs the warning and broadcasts on the first and last
  observation dates. The observation dates take no part in the choice, so every
  observation series with at least as many timesteps as there are lead times gives the
  nominal window, wherever its dates lie.
\<close>

theorem filter_ds_by_obs_counts_decide:
  fixes obs_da :: "'o dataset_scheme"
  assumes "leadtime ds \<noteq> []"
  shows "filter_ds_by_obs broadcast_forecast ds obs_da forecast_date =
           (if length (leadtime ds) \<le> length (time obs_da) then
              ([], broadcast_forecast (fst (nominal_window ds forecast_date))
                     (snd (nominal_window ds forecast_date)) ds)
            else if length (time obs_da) = 0 then
              ([], Inl (RuntimeError (fst (nominal_window ds forecast_date))
                                     (snd (nominal_window ds forecast_date))))
            else
              ([Log WARNING (ObsNotAvailable (hd (time obs_da)) (last (time obs_da))
                               (fst (nominal_window ds forecast_date))
                               (snd (nominal_window ds forecast_date)))],
               broadcast_forecast (hd (time obs_da)) (last (time obs_da)) ds)) \<and>
         (\<forall>obs_da' :: 'o dataset_scheme.
            length (leadtime ds) \<le> length (time obs_da') \<longrightarrow>
            filter_ds_by_obs broadcast_forecast ds obs_da' forecast_date =
              ([], broadcast_forecast (fst (nominal_window ds forecast_date))
                     (snd (nominal_window ds forecast_date)) ds))"
proof -
  have branch: "filter_ds_by_obs broadcast_forecast ds obs forecast_date =
           (if length (leadtime ds) \<le> length (time obs) then
              ([], broadcast_forecast (fst (nominal_window ds forecast_date))
                     (snd (nominal_window ds forecast_date)) ds)
            else if length (time obs) = 0 then
              ([], Inl (RuntimeError (fst (nominal_window ds forecast_date))
                                     (snd (nominal_window ds forecast_date))))
            else
              ([Log WARNING (ObsNotAvailable (hd (time obs)) (last (time obs))
                               (fst (nominal_window ds forecast_date))
                               (snd (nominal_window ds forecast_date)))],
               broadcast_forecast (hd (time obs)) (last (time obs)) ds))"
    for obs :: "'o dataset_scheme"
    using assms
    by (simp add: filter_ds_by_obs_def array_min_Inr array_max_Inr nominal_window_def Let_def)
  show ?thesis
    by (simp add: branch)
qed

text \<open>
  Lead times 0 to 14 from 2022-04-01 and fifteen observation timesteps dated 2021-01-01 to
  2021-01-15, all before the nominal window: the nominal window 2022-04-01 to 2022-04-15
  is used and nothing is logged.
\<close>

theorem filter_ds_by_obs_counts_decide_witness:
  "length [0..14::int] \<le> length [days_from_civil 2021 1 1..days_from_civil 2021 1 15] \<and>
   last [days_from_civil 2021 1 1..days_from_civil 2021 1 15] < days_from_civil 2022 4 1 \<and>
   filter_ds_by_obs (\<lambda>s e d. Inr (s, e, d)) \<lparr>leadtime = [0..14]\<rparr>
      \<lparr>source = ''osisaf'', time = [days_from_civil 2021 1 1..days_from_civil 2021 1 15],
        yc = [], xc = [], da_values = \<lparr>shape = [15, 0, 0], cells = []\<rparr>\<rparr>
      (days_from_civil 2022 4 1) =
    ([], Inr (days_from_civil 2022 4 1, days_from_civil 2022 4 15, \<lparr>leadtime = [0..14]\<rparr>))"
proof -
  have obs: "length [18628..18642::int] = 15" "last [18628..18642::int] = 18642"
    by (simp_all add: last_upto)
  have lt: "leadtime \<lparr>leadtime = [0..14]\<rparr> \<noteq> []" by (simp add: upto_rec1)
  note th = filter_ds_by_obs_counts_decide [of "\<lparr>leadtime = [0..14]\<rparr>"
      "\<lambda>s e d. Inr (s, e, d)"
      "\<lparr>source = ''osisaf'', time = [18628..18642], yc = [], xc = [],
         da_values = \<lparr>shape = [15, 0, 0], cells = []\<rparr>\<rparr>" 19083, OF lt, THEN conjunct1]
  from th show ?thesis
    by (simp add: days_from_civil_def obs nominal_window_def Min_upto Max_upto)
qed

section \<open>Properties of the corpus builder\<close>

lemma index_of_nth:
  "distinct xs \<Longrightarrow> i < length xs \<Longrightarrow> index_of xs (xs ! i) = Some i"
proof (induction xs arbitrary: i)
  case Nil
  then show ?case by simp
next
  case (Cons x xs)
  show ?case
  proof (cases i)
    case 0
    then show ?thesis by simp
  next
    case (Suc j)
    with Cons.prems have "xs ! j \<in> set xs" and "x \<notin> set xs" by auto
    then have "x \<noteq> xs ! j" by auto
    with Suc Cons show ?thesis by simp
  qed
qed

lemma index_of_None: "x \<notin> set xs \<Longrightarrow> index_of xs x = None"
  by (induction xs) auto

lemma map_of_nth:
  "distinct (map fst xs) \<Longrightarrow> i < length xs \<Longrightarrow> map_of xs (fst (xs ! i)) = Some (snd (xs ! i))"
  by (simp add: map_of_eq_Some_iff)

lemma time_sel_time_upto:
  "time (sel_time None (Some u) ds) = takeWhile (\<lambda>t. t \<le> u) (time ds)"
  by (simp add: sel_time_def Let_def)

lemma takeWhile_le_sorted:
  "sorted xs \<Longrightarrow> takeWhile (\<lambda>t. t \<le> (u::int)) xs = filter (\<lambda>t. t \<le> u) xs"
proof (induction xs)
  case Nil
  then show ?case by simp
next
  case (Cons x xs)
  show ?case
  proof (cases "x \<le> u")
    case True
    with Cons show ?thesis by simp
  next
    case False
    with Cons.prems have "\<forall>y \<in> set xs. \<not> y \<le> u" by auto
    then have "filter (\<lambda>t. t \<le> u) xs = []" by (simp add: filter_empty_conv)
    with False show ?thesis by simp
  qed
qed

lemma strip_overlapping_time_at:
  assumes "distinct (map fst files)" and "i < length files"
    and "absp (source ds) = fst (files ! i)"
  shows "strip_overlapping_time absp files ds =
           (if i < length files - 1
            then ([Log DEBUG (Stripping (fst (files ! i)) (snd (files ! (i + 1)) - 1))],
                  Inr (Some (sel_time None (Some (snd (files ! (i + 1)) - 1)) ds)))
            else ([Log DEBUG (NotStripping (fst (files ! i)))], Inr (Some ds)))"
proof -
  from assms have idx: "index_of (map fst files) (absp (source ds)) = Some i"
    using index_of_nth [of "map fst files" i] by simp
  show ?thesis
  proof (cases "i < length files - 1")
    case True
    then have "i + 1 < length files" by simp
    with assms(1) have "map_of files (map fst files ! (i + 1)) = Some (snd (files ! (i + 1)))"
      using map_of_nth [of files "i + 1"] by simp
    with True idx assms(3) show ?thesis
      by (simp add: strip_overlapping_time_def Let_def)
  next
    case False
    with idx assms(3) show ?thesis
      by (simp add: strip_overlapping_time_def)
  qed
qed

text \<open>
  A file whose path is not a key of the dict: the callback logs at exception level and
  returns \<^verbatim>\<open>None\<close>; it raises nothing.
\<close>

lemma strip_overlapping_time_unmatched:
  assumes "absp (source ds) \<notin> fst ` set files"
  shows "strip_overlapping_time absp files ds =
           ([Log EXCEPTION (NotIn (absp (source ds)) files)], Inr None)"
  using assms by (simp add: strip_overlapping_time_def index_of_None)

text \<open>
  Claim C1. Let the dict of sibling files be in the order of their issuance dates, and
  let a file be opened whose path is the \<open>i\<close>-th key and whose time axis is in increasing
  order, as the time axis of every series of the data model is. The callback returns the
  file with its time axis clipped to end at the \<open>i\<close>-th valid window's end, the next
  entry's issuance date minus one day, and returns the last file as it is. The clip has no
  lower end: exactly the timesteps up to that day are kept, and they are the leading ones.
  The day after the window's end is the start of the next window, and every timestep kept
  lies before the start of every later window.
\<close>

theorem strip_overlapping_time_valid_window:
  assumes "distinct (map fst files)" and "sorted (map snd files)"
    and "i < length files" and "absp (source ds) = fst (files ! i)"
    and "sorted (time ds)"
  shows "snd (strip_overlapping_time absp files ds) =
           Inr (Some (case snd (valid_window files i) of
                        None \<Rightarrow> ds
                      | Some u \<Rightarrow> sel_time None (Some u) ds)) \<and>
         (snd (valid_window files i) = None \<longleftrightarrow> i = length files - 1) \<and>
         (\<forall>u. snd (valid_window files i) = Some u \<longrightarrow>
            u = snd (files ! (i + 1)) - 1 \<and>
            u + 1 = fst (valid_window files (i + 1)) \<and>
            time (sel_time None (Some u) ds) = filter (\<lambda>t. t \<le> u) (time ds) \<and>
            time (sel_time None (Some u) ds) = takeWhile (\<lambda>t. t \<le> u) (time ds) \<and>
            (\<forall>j t. i < j \<and> j < length files \<and> t \<in> set (time (sel_time None (Some u) ds))
               \<longrightarrow> t < fst (valid_window files j)))"
proof (cases "i + 1 < length files")
  case True
  then have lt: "i < length files - 1" by simp
  have w: "snd (valid_window files i) = Some (snd (files ! (i + 1)) - 1)"
    using True by (simp add: valid_window_def)
  have r: "snd (strip_overlapping_time absp files ds) =
             Inr (Some (sel_time None (Some (snd (files ! (i + 1)) - 1)) ds))"
    using lt by (simp add: strip_overlapping_time_at [of files i absp ds, OF assms(1,3,4)])
  have nl: "i \<noteq> length files - 1" using True by simp
  have later: "t < fst (valid_window files j)"
    if "i < j" "j < length files"
      "t \<in> set (time (sel_time None (Some (snd (files ! (i + 1)) - 1)) ds))" for j t
  proof -
    from that(3) have "t \<le> snd (files ! (i + 1)) - 1"
      by (auto simp add: time_sel_time_upto dest: set_takeWhileD)
    moreover from that(1,2) assms(2) have "map snd files ! (i + 1) \<le> map snd files ! j"
      by (intro sorted_nth_mono) auto
    with that True have "snd (files ! (i + 1)) \<le> snd (files ! j)" by simp
    ultimately show ?thesis by (simp add: valid_window_def)
  qed
  have c: "snd (files ! (i + 1)) - 1 + 1 = fst (valid_window files (i + 1))"
    by (simp add: valid_window_def)
  have f: "time (sel_time None (Some (snd (files ! (i + 1)) - 1)) ds) =
             filter (\<lambda>t. t \<le> snd (files ! (i + 1)) - 1) (time ds)"
    using takeWhile_le_sorted [of "time ds" "snd (files ! (i + 1)) - 1"] assms(5)
    by (simp add: time_sel_time_upto)
  have k: "time (sel_time None (Some (snd (files ! (i + 1)) - 1)) ds) =
             takeWhile (\<lambda>t. t \<le> snd (files ! (i + 1)) - 1) (time ds)"
    by (rule time_sel_time_upto)
  show ?thesis
    unfolding w r using nl c f k later
    by simp
next
  case False
  with assms(3) have eq: "i = length files - 1" by simp
  have w: "snd (valid_window files i) = None"
    using False by (simp add: valid_window_def)
  have r: "snd (strip_overlapping_time absp files ds) = Inr (Some ds)"
    using eq by (simp add: strip_overlapping_time_at [of files i absp ds, OF assms(1,3,4)])
  show ?thesis
    unfolding w r using eq by simp
qed


text \<open>
  Scenario D: issuances of 2022-03-01, 2022-04-01 and 2022-05-01. The window of the first
  ends on 2022-03-31, and a file of the first issuance with timesteps from 2022-03-30 to
  2022-04-02 keeps the first two.
\<close>

theorem strip_overlapping_time_valid_window_witness:
  "snd (strip_overlapping_time (\<lambda>p. p)
      [(''/data/mars.seas/north/siconca/20220301.nc'', days_from_civil 2022 3 1),
       (''/data/mars.seas/north/siconca/20220401.nc'', days_from_civil 2022 4 1),
       (''/data/mars.seas/north/siconca/20220501.nc'', days_from_civil 2022 5 1)]
      \<lparr>source = ''/data/mars.seas/north/siconca/20220301.nc'',
        time = [days_from_civil 2022 3 30, days_from_civil 2022 3 31,
                days_from_civil 2022 4 1, days_from_civil 2022 4 2],
        yc = [0], xc = [0],
        da_values = \<lparr>shape = [4, 1, 1], cells = [1, 2, 3, 4]\<rparr>\<rparr>) =
    Inr (Some \<lparr>source = ''/data/mars.seas/north/siconca/20220301.nc'',
        time = [days_from_civil 2022 3 30, days_from_civil 2022 3 31],
        yc = [0], xc = [0],
        da_values = \<lparr>shape = [2, 1, 1], cells = [1, 2]\<rparr>\<rparr>) \<and>
   valid_window
      [(''/data/mars.seas/north/siconca/20220301.nc'', days_from_civil 2022 3 1),
       (''/data/mars.seas/north/siconca/20220401.nc'', days_from_civil 2022 4 1),
       (''/data/mars.seas/north/siconca/20220501.nc'', days_from_civil 2022 5 1)] 0 =
     (days_from_civil 2022 3 1, Some (days_from_civil 2022 3 31))"
proof -
  let ?files = "[(''/data/mars.seas/north/siconca/20220301.nc'', 19052::int),
       (''/data/mars.seas/north/siconca/20220401.nc'', 19083),
       (''/data/mars.seas/north/siconca/20220501.nc'', 19113)]"
  let ?ds = "\<lparr>source = ''/data/mars.seas/north/siconca/20220301.nc'',
        time = [19081, 19082, 19083, 19084::int], yc = [0::real], xc = [0::real],
        da_values = \<lparr>shape = [4, 1, 1], cells = [1, 2, 3, 4]\<rparr>\<rparr>"
  have d: "distinct (map fst ?files)" by simp
  have s: "sorted (map snd ?files)" by simp
  have i: "(0::nat) < length ?files" by simp
  have a: "source ?ds = fst (?files ! 0)" by simp
  have t: "sorted (time ?ds)" by simp
  note th = strip_overlapping_time_valid_window [of ?files 0 "\<lambda>p. p" ?ds, OF d s i a t,
      THEN conjunct1]
  have w: "valid_window ?files 0 = (19052, Some 19082)"
    by (simp add: valid_window_def)
  have c: "sel_time None (Some 19082) ?ds =
      \<lparr>source = ''/data/mars.seas/north/siconca/20220301.nc'',
        time = [19081, 19082], yc = [0], xc = [0],
        da_values = \<lparr>shape = [2, 1, 1], cells = [1, 2]\<rparr>\<rparr>"
    by (simp add: sel_time_def nd_rows_def)
  from th w c show ?thesis
    by (simp add: days_from_civil_def)
qed

section \<open>Properties of the observation range loader\<close>

lemma concat_map_all_empty: "(\<forall>x \<in> set xs. f x = []) \<Longrightarrow> concat (map f xs) = []"
  by (induction xs) auto

lemma unique_eq_Nil: "unique xs = [] \<longleftrightarrow> xs = []"
  by (simp add: unique_def)

lemma obs_years_eq_Nil: "obs_years start_date end_date = [] \<longleftrightarrow> end_date < start_date"
  by (simp add: obs_years_def unique_eq_Nil)

lemma open_mfdataset_no_paths:
  "open_mfdataset env [] preprocess = ([], Inl (OSError ''no files to open''))"
  by (simp add: open_mfdataset_def)

lemma get_obs_da_no_files:
  assumes "\<forall>yr \<in> set (obs_years start_date end_date).
             glob env (join_path [obs_source, hemisphere, ''siconca'',
                                  nat_to_str (nat yr) @ ''.nc'']) = []"
  shows "get_obs_da env hemisphere start_date end_date obs_source =
           ((if start_date \<le> end_date
             then [Log WARNING (CannotFindAllObs start_date end_date obs_source)]
             else []) @ [Log INFO (GotFiles [])],
            Inl (OSError ''no files to open''))"
proof -
  have c: "concat (map (\<lambda>yr. glob env (join_path [obs_source, hemisphere, ''siconca'',
                        nat_to_str (nat yr) @ ''.nc''])) (obs_years start_date end_date)) = []"
    using assms by (rule concat_map_all_empty)
  show ?thesis
    unfolding get_obs_da_def Let_def c
    using obs_years_eq_Nil [of start_date end_date]
    by (auto simp add: open_mfdataset_no_paths)
qed

text \<open>
  Claim C7, as stated, fails. With no yearly file on disk for a request from 2022-04-01 to
  2022-04-15, \<^verbatim>\<open>get_obs_da\<close> logs the missing-coverage warning and the empty list of
  files, and then the call of \<^verbatim>\<open>xr.open_mfdataset\<close> on the empty list raises: the loader
  ends in \<^verbatim>\<open>OSError\<close> and returns no series.
\<close>

theorem get_obs_da_zero_files_raises:
  "get_obs_da
     \<lparr>glob = (\<lambda>pattern. []), abspath = (\<lambda>p. p),
      open_dataset = (\<lambda>p. Inl (OSError ''No such file or directory'')),
      combine = (\<lambda>results. Inl (LibraryError ''nothing to combine'')),
      debiaser_apply = (\<lambda>obs hist fut. Inr fut)\<rparr>
     ''north'' (days_from_civil 2022 4 1) (days_from_civil 2022 4 15) ''./data/osisaf'' =
   ([Log WARNING (CannotFindAllObs (days_from_civil 2022 4 1) (days_from_civil 2022 4 15)
                    ''./data/osisaf''),
     Log INFO (GotFiles [])],
    Inl (OSError ''no files to open''))"
  by (simp add: get_obs_da_no_files days_from_civil_def)

text \<open>
  Claim C7, amended. When no yearly file is found for any year of the requested range,
  \<^verbatim>\<open>get_obs_da\<close> makes no check of its own: it logs the missing-coverage warning (if the
  range has a day at all) and the empty list of files, hands that list to
  \<^verbatim>\<open>xr.open_mfdataset\<close>, and ends in the \<^verbatim>\<open>OSError\<close> that call raises. No series is
  returned, so no later length check sees this case.
\<close>

theorem get_obs_da_zero_files:
  assumes "\<forall>yr \<in> set (obs_years start_date end_date).
             glob env (join_path [obs_source, hemisphere, ''siconca'',
                                  nat_to_str (nat yr) @ ''.nc'']) = []"
  shows "get_obs_da env hemisphere start_date end_date obs_source =
           ((if start_date \<le> end_date
             then [Log WARNING (CannotFindAllObs start_date end_date obs_source)]
             else []) @ [Log INFO (GotFiles [])],
            Inl (OSError ''no files to open''))"
  using assms by (rule get_obs_da_no_files)

theorem get_obs_da_zero_files_witness:
  "get_obs_da
     \<lparr>glob = (\<lambda>pattern. []), abspath = (\<lambda>p. p),
      open_dataset = (\<lambda>p. Inl (OSError ''No such file or directory'')),
      combine = (\<lambda>results. Inl (LibraryError ''nothing to combine'')),
      debiaser_apply = (\<lambda>obs hist fut. Inr fut)\<rparr>
     ''south'' (days_from_civil 2021 1 1) (days_from_civil 2021 12 31) ''./data/osisaf'' =
   ([Log WARNING (CannotFindAllObs (days_from_civil 2021 1 1) (days_from_civil 2021 12 31)
                    ''./data/osisaf''),
     Log INFO (GotFiles [])],
    Inl (OSError ''no files to open''))"
  using get_obs_da_zero_files [of "days_from_civil 2021 1 1" "days_from_civil 2021 12 31"
      "\<lparr>glob = (\<lambda>pattern. []), abspath = (\<lambda>p. p),
      open_dataset = (\<lambda>p. Inl (OSError ''No such file or directory'')),
      combine = (\<lambda>results. Inl (LibraryError ''nothing to combine'')),
      debiaser_apply = (\<lambda>obs hist fut. Inr fut)\<rparr>" "''./data/osisaf''" "''south''"]
  by (simp add: days_from_civil_def)

section \<open>Properties of the bias-corrected forecast\<close>

text \<open>The run of the example: the forecast of 2022-04-01, bias-corrected.\<close>

lemma strftime_example: "strftime_Ymd 19083 = ''20220401''"
  by code_simp


lemma hist_example:
  "seas_hist_files example_env ''/data/mars.seas'' ''north''
     ''/data/mars.seas/north/siconca/20220401.nc'' =
   Inr [(''/data/mars.seas/north/siconca/20220301.nc'', 19052),
        (''/data/mars.seas/north/siconca/20220501.nc'', 19113)]"
  by code_simp


lemma open_all_total: "(\<And>p. opn p = Inr (f p)) \<Longrightarrow> open_all opn ps = Inr (map f ps)"
  by (induction ps) simp_all

lemma preprocess_all_no_preprocess:
  "preprocess_all no_preprocess dss = ([], Inr (map Some dss))"
  by (induction dss) (simp_all add: no_preprocess_def)

lemma obs_example:
  "snd (get_obs_da example_env ''north'' 15433 22733 ''./data/osisaf'') =
     Inr \<lparr>source = [], time = [19083, 19084], yc = [0], xc = [0],
          da_values = \<lparr>shape = [2, 1, 1], cells = [1 / 2, 1 / 4]\<rparr>\<rparr>"
proof -
  obtain y ys where ys: "obs_years 15433 22733 = y # ys"
    using obs_years_eq_Nil [of 15433 22733] by (cases "obs_years 15433 22733") auto
  have o: "open_all (open_dataset example_env) ps =
             Inr (map (\<lambda>p. \<lparr>source = p,
              time = (if p = ''/data/mars.seas/north/siconca/20220301.nc''
                      then [days_from_civil 2022 3 1, days_from_civil 2022 3 2]
                      else if p = ''/data/mars.seas/north/siconca/20220501.nc''
                      then [days_from_civil 2022 5 1, days_from_civil 2022 5 2]
                      else [days_from_civil 2022 4 1, days_from_civil 2022 4 2]),
              yc = [0], xc = [0],
              da_values = \<lparr>shape = [2, 1, 1], cells = [1 / 2, 1 / 4]\<rparr>\<rparr>) ps)" for ps
    by (rule open_all_total) (simp add: example_env_def)
  have g: "glob example_env (CHR ''.'' # x) = [CHR ''.'' # x]" for x
    by (simp add: example_env_def)
  have c: "combine example_env (Some d # r) = Inr (d\<lparr>source := []\<rparr>)" for d r
    by (simp add: example_env_def)
  show ?thesis
    by (simp add: get_obs_da_def ys Let_def g o c open_mfdataset_def
        preprocess_all_no_preprocess sel_time_def nd_rows_def days_from_civil_def
        del: open_all.simps preprocess_all.simps)
qed


lemma hist_open_example:
  "snd (open_mfdataset example_env
          [''/data/mars.seas/north/siconca/20220301.nc'',
           ''/data/mars.seas/north/siconca/20220501.nc'']
          (strip_overlapping_time (abspath example_env)
             [(''/data/mars.seas/north/siconca/20220301.nc'', 19052),
              (''/data/mars.seas/north/siconca/20220501.nc'', 19113)])) =
     Inr \<lparr>source = [], time = [19052, 19053], yc = [0], xc = [0],
          da_values = \<lparr>shape = [2, 1, 1], cells = [1 / 2, 1 / 4]\<rparr>\<rparr>"
  by (simp add: open_mfdataset_def example_env_def strip_overlapping_time_def Let_def
      sel_time_def nd_rows_def days_from_civil_def)

lemma example_run:
  "snd (get_seas_forecast_da example_env ''north'' 19083 True ''/data/mars.seas'') =
     Inr \<lparr>source = ''/data/mars.seas/north/siconca/20220401.nc'',
          time = [19083, 19084], yc = [0], xc = [0],
          da_values = \<lparr>shape = [2, 1, 1], cells = [1 / 4, 1 / 8]\<rparr>\<rparr>"
proof -
  obtain l1 where o: "get_obs_da example_env ''north'' 15433 22733 ''./data/osisaf'' =
      (l1, Inr \<lparr>source = [], time = [19083, 19084], yc = [0], xc = [0],
          da_values = \<lparr>shape = [2, 1, 1], cells = [1 / 2, 1 / 4]\<rparr>\<rparr>)"
    using obs_example by (cases "get_obs_da example_env ''north'' 15433 22733 ''./data/osisaf''") auto
  obtain l2 where h: "open_mfdataset example_env
          [''/data/mars.seas/north/siconca/20220301.nc'',
           ''/data/mars.seas/north/siconca/20220501.nc'']
          (strip_overlapping_time (abspath example_env)
             [(''/data/mars.seas/north/siconca/20220301.nc'', 19052),
              (''/data/mars.seas/north/siconca/20220501.nc'', 19113)]) =
      (l2, Inr \<lparr>source = [], time = [19052, 19053], yc = [0], xc = [0],
          da_values = \<lparr>shape = [2, 1, 1], cells = [1 / 2, 1 / 4]\<rparr>\<rparr>)"
    using hist_open_example
    by (cases "open_mfdataset example_env
          [''/data/mars.seas/north/siconca/20220301.nc'',
           ''/data/mars.seas/north/siconca/20220501.nc'']
          (strip_overlapping_time (abspath example_env)
             [(''/data/mars.seas/north/siconca/20220301.nc'', 19052),
              (''/data/mars.seas/north/siconca/20220501.nc'', 19113)])") auto
  have s: "open_dataset example_env ''/data/mars.seas/north/siconca/20220401.nc'' =
      Inr \<lparr>source = ''/data/mars.seas/north/siconca/20220401.nc'',
          time = [19083, 19084], yc = [0], xc = [0],
          da_values = \<lparr>shape = [2, 1, 1], cells = [1 / 2, 1 / 4]\<rparr>\<rparr>"
    by (simp add: example_env_def days_from_civil_def)
  have d: "debiaser_apply example_env a b c = Inr (c\<lparr>cells := map (\<lambda>x. x / 2) (cells c)\<rparr>)"
    for a b c
    by (simp add: example_env_def)
  show ?thesis
    by (simp add: get_seas_forecast_da_def strftime_example Let_def s o hist_example h d
        value_range_def array_min_def array_max_def set_values_def)
qed

lemma set_values_Inr:
  "set_values da arr = Inr da' \<Longrightarrow> da' = da\<lparr>da_values := arr\<rparr> \<and> shape arr = shape (da_values da)"
  by (auto simp add: set_values_def split: if_splits)

lemma open_example:
  "open_dataset example_env ''/data/mars.seas/north/siconca/20220401.nc'' =
      Inr \<lparr>source = ''/data/mars.seas/north/siconca/20220401.nc'',
          time = [19083, 19084], yc = [0], xc = [0],
          da_values = \<lparr>shape = [2, 1, 1], cells = [1 / 2, 1 / 4]\<rparr>\<rparr>"
  by (simp add: example_env_def days_from_civil_def)

lemma seas_file_example:
  "join_path [''/data/mars.seas'', ''north'', ''siconca'', strftime_Ymd 19083 @ ''.nc''] =
     ''/data/mars.seas/north/siconca/20220401.nc''"
  by (simp add: strftime_example)

text \<open>
  Claim C9. Whenever \<^verbatim>\<open>get_seas_forecast_da\<close> returns a series, that series is the raw
  forecast series it opened with only the cells of \<^verbatim>\<open>.values\<close> replaced: the time axis,
  the \<^verbatim>\<open>yc\<close> and \<^verbatim>\<open>xc\<close> coordinates and the shape of the array are those of the raw
  series. This holds for every behaviour of the files and of the debiaser.
\<close>

theorem get_seas_forecast_da_frame:
  assumes "snd (get_seas_forecast_da env hemisphere date bias_correct source_path) = Inr corrected"
  shows "\<exists>seas_da.
           open_dataset env (join_path [source_path, hemisphere, ''siconca'',
                                        strftime_Ymd date @ ''.nc'']) = Inr seas_da \<and>
           corrected = seas_da\<lparr>da_values := da_values corrected\<rparr> \<and>
           time corrected = time seas_da \<and> yc corrected = yc seas_da \<and>
           xc corrected = xc seas_da \<and>
           shape (da_values corrected) = shape (da_values seas_da)"
  using assms
  by (auto simp add: get_seas_forecast_da_def Let_def
      split: sum.splits prod.splits if_splits dest!: set_values_Inr)

text \<open>
  In the example the raw cells 1/2 and 1/4 of 2022-04-01 and 2022-04-02 become 1/4 and
  1/8; dates, grid and shape stay.
\<close>

theorem get_seas_forecast_da_frame_witness:
  "snd (get_seas_forecast_da example_env ''north'' (days_from_civil 2022 4 1) True
          ''/data/mars.seas'') =
     Inr \<lparr>source = ''/data/mars.seas/north/siconca/20220401.nc'',
          time = [days_from_civil 2022 4 1, days_from_civil 2022 4 2], yc = [0], xc = [0],
          da_values = \<lparr>shape = [2, 1, 1], cells = [1 / 4, 1 / 8]\<rparr>\<rparr> \<and>
   open_dataset example_env ''/data/mars.seas/north/siconca/20220401.nc'' =
     Inr \<lparr>source = ''/data/mars.seas/north/siconca/20220401.nc'',
          time = [days_from_civil 2022 4 1, days_from_civil 2022 4 2], yc = [0], xc = [0],
          da_values = \<lparr>shape = [2, 1, 1], cells = [1 / 2, 1 / 4]\<rparr>\<rparr>"
  using get_seas_forecast_da_frame [OF example_run] example_run open_example
  by (simp add: days_from_civil_def)

text \<open>
  Claim C8, as stated, fails by the leap days. For the forecast of 2022-04-01, with no
  observation file on disk, the warning of the run names the range it asked for:
  2012-04-03 to 2032-03-29, not 2012-04-01 to 2032-04-01.
\<close>

theorem get_seas_forecast_da_obs_range_not_ten_years:
  "get_seas_forecast_da
     \<lparr>glob = (\<lambda>pattern. []), abspath = (\<lambda>p. p),
      open_dataset = (\<lambda>p. Inr \<lparr>source = p,
          time = [days_from_civil 2022 4 1, days_from_civil 2022 4 2], yc = [0], xc = [0],
          da_values = \<lparr>shape = [2, 1, 1], cells = [1 / 2, 1 / 4]\<rparr>\<rparr>),
      combine = (\<lambda>results. Inl (LibraryError ''nothing to combine'')),
      debiaser_apply = (\<lambda>obs hist fut. Inr fut)\<rparr>
     ''north'' (days_from_civil 2022 4 1) True ''/data/mars.seas'' =
   ([Log WARNING (CannotFindAllObs (days_from_civil 2012 4 3) (days_from_civil 2032 3 29)
                    ''./data/osisaf''),
     Log INFO (GotFiles [])],
    Inl (OSError ''no files to open'')) \<and>
   days_from_civil 2012 4 3 \<noteq> days_from_civil 2012 4 1 \<and>
   days_from_civil 2032 3 29 \<noteq> days_from_civil 2032 4 1"
proof -
  have o: "get_obs_da env ''north'' 15433 22733 ''./data/osisaf'' =
      ([Log WARNING (CannotFindAllObs 15433 22733 ''./data/osisaf''), Log INFO (GotFiles [])],
       Inl (OSError ''no files to open''))"
    if "glob env = (\<lambda>pattern. [])" for env
    using that by (simp add: get_obs_da_no_files)
  show ?thesis
    by (simp add: get_seas_forecast_da_def Let_def o days_from_civil_def)
qed

text \<open>
  Claim C8, amended. With bias correction, \<^verbatim>\<open>get_seas_forecast_da\<close> loads its observations
  by \<^verbatim>\<open>get_obs_da\<close> for the range from \<open>10 * 365\<close> days before the forecast date to
  \<open>10 * 365\<close> days after it: once the raw forecast is open, the log of the run starts with
  the log of that call, an error of that call is the error of the run, and the corrected
  cells of a successful run are what the debiaser returned for the cells of the series
  that call loaded.
\<close>

theorem get_seas_forecast_da_obs_range:
  assumes "open_dataset env (join_path [source_path, hemisphere, ''siconca'',
                                        strftime_Ymd date @ ''.nc'']) = Inr seas_da"
  shows "(\<exists>rest. fst (get_seas_forecast_da env hemisphere date True source_path) =
            fst (get_obs_da env hemisphere (date - 10 * 365) (date + 10 * 365)
                   ''./data/osisaf'') @ rest) \<and>
         (\<forall>e. snd (get_obs_da env hemisphere (date - 10 * 365) (date + 10 * 365)
                     ''./data/osisaf'') = Inl e \<longrightarrow>
            get_seas_forecast_da env hemisphere date True source_path =
              (fst (get_obs_da env hemisphere (date - 10 * 365) (date + 10 * 365)
                      ''./data/osisaf''), Inl e)) \<and>
         (\<forall>corrected.
            snd (get_seas_forecast_da env hemisphere date True source_path) = Inr corrected \<longrightarrow>
            (\<exists>obs_da hist_values.
               snd (get_obs_da env hemisphere (date - 10 * 365) (date + 10 * 365)
                      ''./data/osisaf'') = Inr obs_da \<and>
               debiaser_apply env (da_values obs_da) hist_values (da_values seas_da) =
                 Inr (da_values corrected)))"
proof -
  obtain l1 r1 where o: "get_obs_da env hemisphere (date - 10 * 365) (date + 10 * 365)
      ''./data/osisaf'' = (l1, r1)"
    by (cases "get_obs_da env hemisphere (date - 10 * 365) (date + 10 * 365) ''./data/osisaf''")
  show ?thesis
    using assms o
    by (auto simp add: get_seas_forecast_da_def Let_def
        split: sum.splits prod.splits if_splits dest!: set_values_Inr)
qed


theorem get_seas_forecast_da_obs_range_witness:
  "days_from_civil 2022 4 1 - 10 * 365 = days_from_civil 2012 4 3 \<and>
   days_from_civil 2022 4 1 + 10 * 365 = days_from_civil 2032 3 29 \<and>
   snd (get_obs_da example_env ''north'' (days_from_civil 2012 4 3) (days_from_civil 2032 3 29)
          ''./data/osisaf'') =
     Inr \<lparr>source = [], time = [days_from_civil 2022 4 1, days_from_civil 2022 4 2],
          yc = [0], xc = [0], da_values = \<lparr>shape = [2, 1, 1], cells = [1 / 2, 1 / 4]\<rparr>\<rparr> \<and>
   snd (get_seas_forecast_da example_env ''north'' (days_from_civil 2022 4 1) True
          ''/data/mars.seas'') =
     Inr \<lparr>source = ''/data/mars.seas/north/siconca/20220401.nc'',
          time = [days_from_civil 2022 4 1, days_from_civil 2022 4 2], yc = [0], xc = [0],
          da_values = \<lparr>shape = [2, 1, 1], cells = [1 / 4, 1 / 8]\<rparr>\<rparr> \<and>
   (\<exists>hist_values.
      debiaser_apply example_env \<lparr>shape = [2, 1, 1], cells = [1 / 2, 1 / 4]\<rparr> hist_values
        \<lparr>shape = [2, 1, 1], cells = [1 / 2, 1 / 4]\<rparr> =
      Inr \<lparr>shape = [2, 1, 1], cells = [1 / 4, 1 / 8]\<rparr>)"
proof -
  have p: "open_dataset example_env (join_path [''/data/mars.seas'', ''north'', ''siconca'',
             strftime_Ymd 19083 @ ''.nc'']) =
      Inr \<lparr>source = ''/data/mars.seas/north/siconca/20220401.nc'',
          time = [19083, 19084], yc = [0], xc = [0],
          da_values = \<lparr>shape = [2, 1, 1], cells = [1 / 2, 1 / 4]\<rparr>\<rparr>"
    unfolding seas_file_example by (rule open_example)
  note th = get_seas_forecast_da_obs_range [OF p, THEN conjunct2, THEN conjunct2,
      rule_format, OF example_run]
  from th obs_example example_run show ?thesis
    by (auto simp add: days_from_civil_def)
qed

end
